theory Spec2Isabelle
  imports Complex_Main "HOL-Library.AList" "HOL-Library.Sublist"
begin

section \<open>SyncLab dubbing engine: the job store\<close>

text \<open>
  The embedding follows \<^verbatim>\<open>src/index.js\<close>. A job is the object literal of
  \<^verbatim>\<open>createJob\<close>; the store \<^verbatim>\<open>jobs\<close> is a JavaScript \<^verbatim>\<open>Map\<close>, kept here as an
  association list in insertion order (\<^verbatim>\<open>Map.set\<close> is \<^const>\<open>AList.update\<close>,
  \<^verbatim>\<open>Map.get\<close> is \<^const>\<open>map_of\<close>, \<^verbatim>\<open>Map.delete\<close> is \<^const>\<open>AList.delete\<close>).
  A thrown \<^verbatim>\<open>Error\<close> is a value \<open>JsError message\<close> on the left of a sum.
\<close>

datatype js_error = JsError (err_message: string)

datatype status = Queued | Running | Done | Error

text \<open>The submission parameters of a job; the fields carry the prefix \<open>m_\<close>.\<close>

record meta =
  m_videoPath :: string
  m_langFrom :: string
  m_langTo :: string
  m_voiceMode :: string
  m_quality :: string
  m_syncConfidence :: rat
  m_filename :: string

text \<open>
  \<open>stage\<close> is \<^verbatim>\<open>null\<close> (\<open>None\<close>) until the first stage writes it; \<open>outputs\<close> is the
  object \<^verbatim>\<open>{}\<close>, a list of (kind, path) pairs. Field \<^verbatim>\<open>id\<close> is named \<open>job_id\<close>.
\<close>

record job =
  job_id :: string
  status :: status
  stage :: "string option"
  progress :: int
  message :: string
  meta :: meta
  createdAt :: int
  updatedAt :: int
  outputs :: "(string \<times> string) list"

type_synonym store = "(string \<times> job) list"

text \<open>
  The second argument of \<^verbatim>\<open>updateJob\<close> is an object naming some of the fields:
  a field that is present is \<open>Some v\<close>, an absent one \<open>None\<close>.
\<close>

record updates =
  u_job_id :: "string option"
  u_status :: "status option"
  u_stage :: "string option option"
  u_progress :: "int option"
  u_message :: "string option"
  u_meta :: "meta option"
  u_createdAt :: "int option"
  u_updatedAt :: "int option"
  u_outputs :: "(string \<times> string) list option"

definition no_updates :: updates where
  "no_updates = \<lparr>u_job_id = None, u_status = None, u_stage = None, u_progress = None,
     u_message = None, u_meta = None, u_createdAt = None, u_updatedAt = None,
     u_outputs = None\<rparr>"

text \<open>\<^verbatim>\<open>createJob\<close> reads \<^verbatim>\<open>Date.now()\<close> twice: \<open>t1\<close> and \<open>t2\<close>.\<close>

definition createJob :: "store \<Rightarrow> int \<Rightarrow> int \<Rightarrow> string \<Rightarrow> meta \<Rightarrow> store \<times> job" where
  "createJob jobs t1 t2 i m =
     (let j = \<lparr>job_id = i, status = Queued, stage = None, progress = 0, message = [],
                meta = m, createdAt = t1, updatedAt = t2, outputs = []\<rparr>
      in (AList.update i j jobs, j))"

text \<open>
  \<^verbatim>\<open>Object.assign(job, updates, { updatedAt: Date.now() })\<close>: the sources are copied
  left to right, so the fields of \<open>updates\<close> overwrite the job's and the fresh
  \<open>updatedAt\<close> overwrites both.
\<close>

definition assign :: "job \<Rightarrow> updates \<Rightarrow> int \<Rightarrow> job" where
  "assign j u now =
     \<lparr>job_id = (case u_job_id u of None \<Rightarrow> job_id j | Some v \<Rightarrow> v),
      status = (case u_status u of None \<Rightarrow> status j | Some v \<Rightarrow> v),
      stage = (case u_stage u of None \<Rightarrow> stage j | Some v \<Rightarrow> v),
      progress = (case u_progress u of None \<Rightarrow> progress j | Some v \<Rightarrow> v),
      message = (case u_message u of None \<Rightarrow> message j | Some v \<Rightarrow> v),
      meta = (case u_meta u of None \<Rightarrow> meta j | Some v \<Rightarrow> v),
      createdAt = (case u_createdAt u of None \<Rightarrow> createdAt j | Some v \<Rightarrow> v),
      updatedAt = now,
      outputs = (case u_outputs u of None \<Rightarrow> outputs j | Some v \<Rightarrow> v)\<rparr>"

definition updateJob :: "store \<Rightarrow> int \<Rightarrow> string \<Rightarrow> updates \<Rightarrow> store" where
  "updateJob jobs now i u =
     (case map_of jobs i of
        None \<Rightarrow> jobs
      | Some j \<Rightarrow> AList.update i (assign j u now) jobs)"

section \<open>Strings and numbers of the host language\<close>

text \<open>
  Strings are byte lists; the source's two non-ASCII characters are written as their
  UTF-8 bytes. JavaScript numbers are modelled by exact rationals: \<^verbatim>\<open>%\<close> takes the
  sign of the dividend, \<^verbatim>\<open>Math.round\<close> rounds halves up. For the times used below
  (0, 2.5 and 5 seconds) double precision gives the same digits: remainders and the
  product by 1000 are exact there, and the quotients are only read through their floor.
\<close>

definition nl :: string where
  "nl = [CHR 0x0A]"

definition em_dash :: string where
  "em_dash = [CHR 0xE2, CHR 0x80, CHR 0x94]"

definition right_arrow :: string where
  "right_arrow = [CHR 0xE2, CHR 0x86, CHR 0x92]"

fun digits_of :: "nat \<Rightarrow> string" where
  "digits_of n =
     (if n < 10 then [''0123456789'' ! n]
      else digits_of (n div 10) @ [''0123456789'' ! (n mod 10)])"

declare digits_of.simps [simp del]

text \<open>\<^verbatim>\<open>String(n)\<close> for an integral number \<open>n\<close>.\<close>

definition String_of :: "int \<Rightarrow> string" where
  "String_of i = (if i < 0 then ''-'' @ digits_of (nat (- i)) else digits_of (nat i))"

definition padStart :: "nat \<Rightarrow> char \<Rightarrow> string \<Rightarrow> string" where
  "padStart n c s = replicate (n - length s) c @ s"

definition pad :: "int \<Rightarrow> string" where
  "pad n = padStart 2 (CHR ''0'') (String_of n)"

definition js_trunc :: "rat \<Rightarrow> int" where
  "js_trunc q = (if q < 0 then \<lceil>q\<rceil> else \<lfloor>q\<rfloor>)"

definition js_rem :: "rat \<Rightarrow> rat \<Rightarrow> rat" where
  "js_rem x y = x - y * of_int (js_trunc (x / y))"

definition Math_round :: "rat \<Rightarrow> int" where
  "Math_round x = \<lfloor>x + 1 / 2\<rfloor>"

fun join :: "string \<Rightarrow> string list \<Rightarrow> string" where
  "join sep [] = []"
| "join sep [x] = x"
| "join sep (x # y # ys) = x @ sep @ join sep (y # ys)"

text \<open>\<^verbatim>\<open>path.join\<close> on segments that need no normalisation.\<close>

definition path_join :: "string list \<Rightarrow> string" where
  "path_join ps = join ''/'' ps"

text \<open>\<^verbatim>\<open>s.replace(pat, rep)\<close> with a string pattern: the first occurrence only.\<close>

fun replace_first :: "string \<Rightarrow> string \<Rightarrow> string \<Rightarrow> string" where
  "replace_first pat rep [] = (if pat = [] then rep else [])"
| "replace_first pat rep (c # cs) =
     (if prefix pat (c # cs) then rep @ drop (length pat) (c # cs)
      else c # replace_first pat rep cs)"

text \<open>An environment variable is set when it is defined and not the empty string.\<close>

definition truthy :: "string option \<Rightarrow> bool" where
  "truthy v = (case v of None \<Rightarrow> False | Some s \<Rightarrow> s \<noteq> [])"

section \<open>The file system\<close>

text \<open>
  \<open>files\<close> maps each existing path to its content; \<open>denied\<close> lists the paths on which
  a mutating call throws (permissions, a read-only or full disk). A call that throws
  leaves the file system as it was.
\<close>

record fsys =
  files :: "(string \<times> string) list"
  denied :: "string list"

definition existsSync :: "fsys \<Rightarrow> string \<Rightarrow> bool" where
  "existsSync fs p = (map_of (files fs) p \<noteq> None)"

definition writeFileSync :: "fsys \<Rightarrow> string \<Rightarrow> string \<Rightarrow> js_error + fsys" where
  "writeFileSync fs p d =
     (if p \<in> set (denied fs) then Inl (JsError (''EACCES: permission denied, open '' @ p))
      else Inr (fs\<lparr>files := AList.update p d (files fs)\<rparr>))"

definition unlinkSync :: "fsys \<Rightarrow> string \<Rightarrow> js_error + fsys" where
  "unlinkSync fs p =
     (if map_of (files fs) p = None
      then Inl (JsError (''ENOENT: no such file or directory, unlink '' @ p))
      else if p \<in> set (denied fs)
      then Inl (JsError (''EACCES: permission denied, unlink '' @ p))
      else Inr (fs\<lparr>files := AList.delete p (files fs)\<rparr>))"

definition mkdirSync :: "fsys \<Rightarrow> string \<Rightarrow> js_error + fsys" where
  "mkdirSync fs p =
     (if map_of (files fs) p \<noteq> None
      then Inl (JsError (''EEXIST: file already exists, mkdir '' @ p))
      else if p \<in> set (denied fs)
      then Inl (JsError (''EACCES: permission denied, mkdir '' @ p))
      else Inr (fs\<lparr>files := AList.update p [] (files fs)\<rparr>))"

text \<open>\<^verbatim>\<open>fs.rmSync(p, { recursive: true })\<close> removes \<open>p\<close> and everything below it.\<close>

definition rmSync :: "fsys \<Rightarrow> string \<Rightarrow> js_error + fsys" where
  "rmSync fs p =
     (if map_of (files fs) p = None
      then Inl (JsError (''ENOENT: no such file or directory, rm '' @ p))
      else if p \<in> set (denied fs)
      then Inl (JsError (''EACCES: permission denied, rm '' @ p))
      else Inr (fs\<lparr>files := filter (\<lambda>(q, _). q \<noteq> p \<and> \<not> prefix (p @ ''/'') q) (files fs)\<rparr>))"

section \<open>Transcripts and subtitles\<close>

text \<open>
  A transcript is the object Whisper writes (or \<^verbatim>\<open>getMockTranscript\<close>), later
  extended by \<open>translatedText\<close>. An absent field is \<open>None\<close>. The segment fields
  \<^verbatim>\<open>id\<close>, \<^verbatim>\<open>start\<close>, \<^verbatim>\<open>end\<close>, \<^verbatim>\<open>text\<close> and the transcript field \<^verbatim>\<open>text\<close> carry a prefix.
\<close>

record segment =
  seg_id :: "int option"
  seg_start :: rat
  seg_end :: rat
  seg_text :: string

record transcript =
  tr_text :: string
  segments :: "segment list option"
  language :: string
  translatedText :: "string option"

definition getMockTranscript :: transcript where
  "getMockTranscript =
     \<lparr>tr_text = ''Hello, welcome to this demonstration of the SyncLab dubbing engine.'',
      segments = Some
        [\<lparr>seg_id = Some 0, seg_start = 0, seg_end = 5 / 2,
          seg_text = ''Hello, welcome to this demonstration''\<rparr>,
         \<lparr>seg_id = Some 1, seg_start = 5 / 2, seg_end = 5,
          seg_text = ''of the SyncLab dubbing engine.''\<rparr>],
      language = ''en'',
      translatedText = None\<rparr>"

text \<open>
  \<^verbatim>\<open>fmtSrtTime\<close> in exact arithmetic. At a time that is no binary fraction the source's
  doubles can round the milliseconds differently (1.0005 gives \<^verbatim>\<open>,000\<close> there); the
  results below use it at 0, 2.5 and 5 only.
\<close>

definition fmtSrtTime :: "rat \<Rightarrow> string" where
  "fmtSrtTime sec =
     (let h = \<lfloor>sec / 3600\<rfloor>;
          m = \<lfloor>js_rem sec 3600 / 60\<rfloor>;
          s = \<lfloor>js_rem sec 60\<rfloor>;
          ms = Math_round (js_rem sec 1 * 1000)
      in pad h @ '':'' @ pad m @ '':'' @ pad s @ '','' @ padStart 3 (CHR ''0'') (String_of ms))"

text \<open>The callback of \<^verbatim>\<open>segments.map\<close> in \<^verbatim>\<open>generateSrt\<close>, at index \<open>i\<close>.\<close>

definition srt_cue :: "nat \<Rightarrow> segment \<Rightarrow> string" where
  "srt_cue i s =
     String_of (int i + 1) @ nl @ fmtSrtTime (seg_start s) @ '' --> '' @ fmtSrtTime (seg_end s)
       @ nl @ seg_text s @ nl"

text \<open>The value of the local \<^verbatim>\<open>srt\<close> in \<^verbatim>\<open>generateSrt\<close>.\<close>

definition srt_content :: "transcript \<Rightarrow> string" where
  "srt_content translated =
     (let segs = (case segments translated of
                    Some xs \<Rightarrow> xs
                  | None \<Rightarrow>
                      [\<lparr>seg_id = None, seg_start = 0, seg_end = 5,
                        seg_text = (case translatedText translated of
                                      None \<Rightarrow> [] | Some t \<Rightarrow> t)\<rparr>])
      in join nl (map (\<lambda>(i, s). srt_cue i s) (enumerate 0 segs)))"

definition generateSrt :: "fsys \<Rightarrow> string \<Rightarrow> transcript \<Rightarrow> string \<Rightarrow> js_error + fsys \<times> string" where
  "generateSrt fs dirname translated jobId =
     (let srtPath = path_join [dirname, ''outputs'', jobId @ ''_subtitles.srt''];
          srt = srt_content translated
      in case writeFileSync fs srtPath srt of
           Inl e \<Rightarrow> Inl e
         | Inr fs' \<Rightarrow> Inr (fs', srtPath))"

section \<open>Artifact cleanup and the deletion and listing routes\<close>

text \<open>\<^verbatim>\<open>try { body } catch {}\<close>: whatever the body throws is dropped.\<close>

definition try_catch_empty :: "'s \<Rightarrow> js_error + 's \<Rightarrow> js_error + 's" where
  "try_catch_empty s r = (case r of Inl _ \<Rightarrow> Inr s | Inr s' \<Rightarrow> Inr s')"

text \<open>\<^verbatim>\<open>xs.forEach(f)\<close> for a callback on the file system that may throw.\<close>

fun forEach :: "'a list \<Rightarrow> ('s \<Rightarrow> 'a \<Rightarrow> js_error + 's) \<Rightarrow> 's \<Rightarrow> js_error + 's" where
  "forEach [] f s = Inr s"
| "forEach (x # xs) f s = (case f s x of Inl e \<Rightarrow> Inl e | Inr s' \<Rightarrow> forEach xs f s')"

definition cleanupTemp :: "fsys \<Rightarrow> string \<Rightarrow> string \<Rightarrow> js_error + fsys" where
  "cleanupTemp fs dirname jobId =
     (case forEach [''_audio.wav'', ''_dubbed.wav'', ''_lipsync.mp4'']
             (\<lambda>fs1 suffix.
                let p = path_join [dirname, ''temp'', jobId @ suffix]
                in try_catch_empty fs1 (if existsSync fs1 p then unlinkSync fs1 p else Inr fs1))
             fs of
        Inl e \<Rightarrow> Inl e
      | Inr fs2 \<Rightarrow>
          (let framesDir = path_join [dirname, ''temp'', jobId @ ''_frames'']
           in try_catch_empty fs2
                (if existsSync fs2 framesDir then rmSync fs2 framesDir else Inr fs2)))"

text \<open>A response is its HTTP status and the one-field JSON body.\<close>

record response =
  res_status :: nat
  res_json :: "string \<times> string"

text \<open>
  \<^verbatim>\<open>app.delete('/api/dub/:jobId')\<close> on the store and the file system. An exception
  leaving the handler reaches the error middleware, which answers 500.
\<close>

definition app_delete :: "store \<times> fsys \<Rightarrow> string \<Rightarrow> string \<Rightarrow> (store \<times> fsys) \<times> response" where
  "app_delete w dirname jobId =
     (case map_of (fst w) jobId of
        None \<Rightarrow> (w, \<lparr>res_status = 404, res_json = (''error'', ''Job not found'')\<rparr>)
      | Some j \<Rightarrow>
          (case cleanupTemp (snd w) dirname jobId of
             Inl e \<Rightarrow> (w, \<lparr>res_status = 500, res_json = (''error'', err_message e)\<rparr>)
           | Inr fs' \<Rightarrow>
               ((AList.delete jobId (fst w), fs'),
                \<lparr>res_status = 200, res_json = (''message'', ''Job deleted'')\<rparr>)))"

record summary =
  s_id :: string
  s_status :: status
  s_progress :: int
  s_filename :: string
  s_createdAt :: int

text \<open>\<^verbatim>\<open>app.get('/api/jobs')\<close>: the body's \<open>total\<close> and \<open>jobs\<close>.\<close>

definition app_jobs :: "store \<Rightarrow> nat \<times> summary list" where
  "app_jobs jobs =
     (let list = map (\<lambda>(_, j). \<lparr>s_id = job_id j, s_status = status j, s_progress = progress j,
                                 s_filename = m_filename (meta j), s_createdAt = createdAt j\<rparr>) jobs
      in (length list, list))"

section \<open>The pipeline and its surroundings\<close>

text \<open>
  What lies outside the program is an input of the model. A spawned process ends with
  the \<^verbatim>\<open>close\<close> event and its exit code (\<^verbatim>\<open>null\<close> is \<open>None\<close>) or fails to start with the
  \<^verbatim>\<open>error\<close> event; the promise of a stage is settled by the first event, and the model
  stops there (a \<^verbatim>\<open>close\<close> that Node delivers after an \<^verbatim>\<open>error\<close> is not followed). A provider's
  answer is \<open>Rejected\<close> when \<^verbatim>\<open>fetch\<close> or \<^verbatim>\<open>res.json()\<close> rejects, \<open>Malformed\<close> when the body
  parses but reading the translated text throws, and \<open>Body t\<close> when that read gives \<open>t\<close>.
\<close>

datatype proc_result = Close "int option" | SpawnError

datatype reply = Rejected | Malformed | Body "string option"

record env =
  dirname :: string
  clock :: "nat \<Rightarrow> int"
  LIBRETRANSLATE_URL :: "string option"
  DEEPL_API_KEY :: "string option"
  XTTS_SERVER_URL :: "string option"
  ELEVENLABS_API_KEY :: "string option"
  WAV2LIP_MODEL :: "string option"
  extractAudio_proc :: proc_result
  extractFrames_proc :: proc_result
  whisper_proc :: proc_result
  whisper_json :: "transcript option"
  libre_reply :: reply
  deepl_reply :: reply
  xtts_ok :: bool
  eleven_audio :: "string option"
  wav2lip_proc :: proc_result
  merge_proc :: proc_result
  render_proc :: proc_result

text \<open>
  The state of the server: the store \<^verbatim>\<open>jobs\<close>, the file system, and (a ghost field)
  \<open>history\<close>, the content of the store after each call of \<^verbatim>\<open>updateJob\<close> so far.
  \<open>update\<close> is that call inside the pipeline; \<^verbatim>\<open>Date.now()\<close> is read off \<open>clock\<close>.
\<close>

record pstate =
  jobs :: store
  history :: "store list"
  disk :: fsys

definition update :: "env \<Rightarrow> pstate \<Rightarrow> string \<Rightarrow> updates \<Rightarrow> pstate" where
  "update e st jobId u =
     (let js = updateJob (jobs st) (clock e (length (history st))) jobId u
      in st\<lparr>jobs := js, history := history st @ [js]\<rparr>)"

definition extractAudio :: "env \<Rightarrow> pstate \<Rightarrow> string \<Rightarrow> string \<Rightarrow> pstate \<times> (js_error + string)" where
  "extractAudio e st videoPath jobId =
     (let audioPath = path_join [dirname e, ''temp'', jobId @ ''_audio.wav''];
          st1 = update e st jobId
                  (no_updates\<lparr>u_stage := Some (Some ''pill-extract''), u_progress := Some 8,
                     u_message := Some ''Extracting audio from video...''\<rparr>)
      in case extractAudio_proc e of
           Close code \<Rightarrow>
             if code = Some 0
             then (update e st1 jobId (no_updates\<lparr>u_progress := Some 15\<rparr>), Inr audioPath)
             else (st1, Inl (JsError (''ffmpeg audio extraction failed (code ''
                     @ (case code of None \<Rightarrow> ''null'' | Some c \<Rightarrow> String_of c) @ '')'')))
         | SpawnError \<Rightarrow>
             (st1, Inl (JsError (''ffmpeg not found '' @ em_dash @ '' please install ffmpeg''))))"

definition extractFrames :: "env \<Rightarrow> pstate \<Rightarrow> string \<Rightarrow> string \<Rightarrow> pstate \<times> (js_error + string)" where
  "extractFrames e st videoPath jobId =
     (let framesDir = path_join [dirname e, ''temp'', jobId @ ''_frames'']
      in case (if \<not> existsSync (disk st) framesDir then mkdirSync (disk st) framesDir
               else Inr (disk st)) of
           Inl err \<Rightarrow> (st, Inl err)
         | Inr fs' \<Rightarrow>
             (let st1 = update e (st\<lparr>disk := fs'\<rparr>) jobId
                          (no_updates\<lparr>u_stage := Some (Some ''pill-extract''),
                             u_progress := Some 18,
                             u_message := Some ''Extracting video frames...''\<rparr>)
              in case extractFrames_proc e of
                   Close code \<Rightarrow>
                     if code = Some 0 then (st1, Inr framesDir)
                     else (st1, Inl (JsError (''Frame extraction failed (code ''
                             @ (case code of None \<Rightarrow> ''null'' | Some c \<Rightarrow> String_of c) @ '')'')))
                 | SpawnError \<Rightarrow> (st1, Inl (JsError ''ffmpeg not found''))))"

text \<open>\<^verbatim>\<open>transcribeAudio\<close> only ever resolves: every failure gives the mock transcript.\<close>

definition transcribeAudio :: "env \<Rightarrow> pstate \<Rightarrow> string \<Rightarrow> string \<Rightarrow> string \<Rightarrow> pstate \<times> transcript" where
  "transcribeAudio e st audioPath langCode jobId =
     (let st1 = update e st jobId
                  (no_updates\<lparr>u_stage := Some (Some ''pill-transcribe''), u_progress := Some 28,
                     u_message := Some ''Running speech recognition...''\<rparr>)
      in case whisper_proc e of
           Close code \<Rightarrow>
             if code = Some 0
             then (case whisper_json e of
                     Some result \<Rightarrow>
                       (update e st1 jobId (no_updates\<lparr>u_progress := Some 40\<rparr>), result)
                   | None \<Rightarrow> (st1, getMockTranscript))
             else (st1, getMockTranscript)
         | SpawnError \<Rightarrow> (st1, getMockTranscript))"

text \<open>
  \<^verbatim>\<open>translateText\<close>. Each provider sits in its own \<^verbatim>\<open>try\<close>; whatever it throws is
  logged and the next one is tried. The local \<open>attempt\<close> is \<open>Some r\<close> when a provider
  block returned \<open>r\<close> and \<open>None\<close> when control fell through it.
\<close>

definition translateText ::
    "env \<Rightarrow> pstate \<Rightarrow> transcript \<Rightarrow> string \<Rightarrow> string \<Rightarrow> string \<Rightarrow> pstate \<times> transcript" where
  "translateText e st transcript fromLang toLang jobId =
     (let st1 = update e st jobId
                  (no_updates\<lparr>u_stage := Some (Some ''pill-translate''), u_progress := Some 48,
                     u_message := Some (''Translating '' @ fromLang @ '' '' @ right_arrow
                                          @ '' '' @ toLang @ ''...'')\<rparr>);
          p58 = no_updates\<lparr>u_progress := Some 58\<rparr>;
          (st2, attempt) =
            (if truthy (LIBRETRANSLATE_URL e)
             then (case libre_reply e of
                     Rejected \<Rightarrow> (st1, None)
                   | Malformed \<Rightarrow> (update e st1 jobId p58, None)
                   | Body t \<Rightarrow>
                       (update e st1 jobId p58,
                        Some (transcript\<lparr>translatedText := t, segments := segments transcript\<rparr>)))
             else (st1, None))
      in case attempt of
           Some r \<Rightarrow> (st2, r)
         | None \<Rightarrow>
             (let (st3, attempt2) =
                    (if truthy (DEEPL_API_KEY e)
                     then (case deepl_reply e of
                             Rejected \<Rightarrow> (st2, None)
                           | Malformed \<Rightarrow> (update e st2 jobId p58, None)
                           | Body t \<Rightarrow>
                               (update e st2 jobId p58, Some (transcript\<lparr>translatedText := t\<rparr>)))
                     else (st2, None))
              in case attempt2 of
                   Some r \<Rightarrow> (st3, r)
                 | None \<Rightarrow>
                     (update e st3 jobId p58,
                      transcript\<lparr>translatedText :=
                        Some (''[Translated to '' @ toLang @ '']: '' @ tr_text transcript)\<rparr>)))"

text \<open>
  \<^verbatim>\<open>synthesizeVoice\<close>. \<open>xtts_ok\<close> says that the XTTS request resolved with \<^verbatim>\<open>res.ok\<close>;
  \<open>eleven_audio\<close> is the audio ElevenLabs answered with, \<open>None\<close> when the request threw
  or was not \<^verbatim>\<open>ok\<close>. A failing write of that audio is caught like any provider failure.
\<close>

definition synthesizeVoice ::
    "env \<Rightarrow> pstate \<Rightarrow> transcript \<Rightarrow> string \<Rightarrow> string \<Rightarrow> string \<Rightarrow> string \<Rightarrow> pstate \<times> string" where
  "synthesizeVoice e st translatedTranscript referenceAudioPath toLang voiceMode jobId =
     (let st1 = update e st jobId
                  (no_updates\<lparr>u_stage := Some (Some ''pill-synth''), u_progress := Some 65,
                     u_message := Some ''Synthesizing dubbed voice...''\<rparr>);
          outputPath = path_join [dirname e, ''temp'', jobId @ ''_dubbed.wav''];
          p75 = no_updates\<lparr>u_progress := Some 75\<rparr>
      in if voiceMode = ''clone'' \<and> truthy (XTTS_SERVER_URL e) \<and> xtts_ok e
         then (update e st1 jobId p75, outputPath)
         else
           (let mp3 = replace_first ''.wav'' ''.mp3'' outputPath;
                written =
                  (if truthy (ELEVENLABS_API_KEY e)
                   then (case eleven_audio e of
                           None \<Rightarrow> None
                         | Some buf \<Rightarrow>
                             (case writeFileSync (disk st1) mp3 buf of
                                Inl _ \<Rightarrow> None
                              | Inr fs' \<Rightarrow> Some fs'))
                   else None)
            in case written of
                 Some fs' \<Rightarrow> (update e (st1\<lparr>disk := fs'\<rparr>) jobId p75, mp3)
               | None \<Rightarrow> (update e st1 jobId p75, referenceAudioPath)))"

text \<open>
  \<^verbatim>\<open>mergeAudioOnly\<close> and \<^verbatim>\<open>runLipSync\<close>. In their \<open>SpawnError\<close> branches the model follows
  the \<^verbatim>\<open>error\<close> handler only. The \<^verbatim>\<open>close\<close> event Node emits afterwards would, in the
  source, still write progress 90 in \<^verbatim>\<open>mergeAudioOnly\<close> and start a second merge in
  \<^verbatim>\<open>runLipSync\<close>; when these happen relative to the rest of the run is a matter of
  scheduling, and no result below goes through these two branches.
\<close>

definition mergeAudioOnly ::
    "env \<Rightarrow> pstate \<Rightarrow> string \<Rightarrow> string \<Rightarrow> string \<Rightarrow> string \<Rightarrow> pstate \<times> (js_error + string)" where
  "mergeAudioOnly e st videoPath audioPath outputPath jobId =
     (let st1 = update e st jobId
                  (no_updates\<lparr>u_stage := Some (Some ''pill-lipsync''), u_progress := Some 86,
                     u_message := Some ''Merging dubbed audio with video...''\<rparr>)
      in case merge_proc e of
           Close code \<Rightarrow>
             (let st2 = update e st1 jobId (no_updates\<lparr>u_progress := Some 90\<rparr>)
              in if code = Some 0 then (st2, Inr outputPath)
                 else (st2, Inl (JsError ''Audio merge failed'')))
         | SpawnError \<Rightarrow> (st1, Inl (JsError ''ffmpeg not found'')))"

definition runLipSync ::
    "env \<Rightarrow> pstate \<Rightarrow> string \<Rightarrow> string \<Rightarrow> string \<Rightarrow> string \<Rightarrow> pstate \<times> (js_error + string)" where
  "runLipSync e st videoPath dubbedAudioPath quality jobId =
     (let st1 = update e st jobId
                  (no_updates\<lparr>u_stage := Some (Some ''pill-lipsync''), u_progress := Some 82,
                     u_message := Some ''Applying Wav2Lip lip synchronization...''\<rparr>);
          outputPath = path_join [dirname e, ''temp'', jobId @ ''_lipsync.mp4''];
          modelPath = (case WAV2LIP_MODEL e of
                         Some m \<Rightarrow>
                           if m \<noteq> [] then m
                           else path_join [dirname e, ''models'', ''wav2lip_gan.pth'']
                       | None \<Rightarrow> path_join [dirname e, ''models'', ''wav2lip_gan.pth''])
      in if \<not> existsSync (disk st1) modelPath
         then mergeAudioOnly e (update e st1 jobId (no_updates\<lparr>u_progress := Some 88\<rparr>))
                videoPath dubbedAudioPath outputPath jobId
         else (case wav2lip_proc e of
                 Close code \<Rightarrow>
                   if code = Some 0
                   then (update e st1 jobId (no_updates\<lparr>u_progress := Some 90\<rparr>), Inr outputPath)
                   else mergeAudioOnly e st1 videoPath dubbedAudioPath outputPath jobId
               | SpawnError \<Rightarrow> mergeAudioOnly e st1 videoPath dubbedAudioPath outputPath jobId))"

definition finalRender :: "env \<Rightarrow> pstate \<Rightarrow> string \<Rightarrow> string \<Rightarrow> pstate \<times> (js_error + string)" where
  "finalRender e st lipsyncPath jobId =
     (let st1 = update e st jobId
                  (no_updates\<lparr>u_stage := Some (Some ''pill-render''), u_progress := Some 94,
                     u_message := Some ''Encoding final output...''\<rparr>);
          finalPath = path_join [dirname e, ''outputs'', jobId @ ''_dubbed_final.mp4'']
      in case render_proc e of
           Close code \<Rightarrow>
             if code = Some 0
             then (update e st1 jobId
                     (no_updates\<lparr>u_progress := Some 100, u_status := Some Done,
                        u_stage := Some (Some ''complete''),
                        u_message := Some ''Dubbing complete!'',
                        u_outputs := Some [(''video'', finalPath)]\<rparr>),
                   Inr finalPath)
             else (st1, Inl (JsError ''Final render failed''))
         | SpawnError \<Rightarrow>
             (update e st1 jobId
                (no_updates\<lparr>u_progress := Some 100, u_status := Some Done,
                   u_stage := Some (Some ''complete''),
                   u_message := Some ''Demo complete (ffmpeg not installed)'',
                   u_outputs := Some [(''video'', lipsyncPath)]\<rparr>),
              Inr lipsyncPath))"

text \<open>The \<^verbatim>\<open>catch\<close> block of \<^verbatim>\<open>runPipeline\<close>.\<close>

definition pipeline_catch :: "env \<Rightarrow> pstate \<Rightarrow> string \<Rightarrow> js_error \<Rightarrow> pstate" where
  "pipeline_catch e st jobId err =
     update e st jobId (no_updates\<lparr>u_status := Some Error, u_message := Some (err_message err)\<rparr>)"

text \<open>
  \<^verbatim>\<open>runPipeline\<close>; the options object is passed as its four fields. The deferred
  \<^verbatim>\<open>setTimeout\<close> cleanup runs after the pipeline has returned and is not part of it.
\<close>

definition runPipeline ::
    "env \<Rightarrow> pstate \<Rightarrow> string \<Rightarrow> string \<Rightarrow> string \<Rightarrow> string \<Rightarrow> string \<Rightarrow> string \<Rightarrow> pstate" where
  "runPipeline e st jobId videoPath langFrom langTo voiceMode quality =
     (let st0 = update e st jobId (no_updates\<lparr>u_status := Some Running\<rparr>)
      in case extractAudio e st0 videoPath jobId of
           (st1, Inl err) \<Rightarrow> pipeline_catch e st1 jobId err
         | (st1, Inr audioPath) \<Rightarrow>
             (let (st2, framesDir) =
                    (case extractFrames e st1 videoPath jobId of
                       (s, Inl _) \<Rightarrow> (s, None)
                     | (s, Inr d) \<Rightarrow> (s, Some d));
                  (st3, transcript) = transcribeAudio e st2 audioPath langFrom jobId;
                  (st4, translated) = translateText e st3 transcript langFrom langTo jobId;
                  (st5, dubbedAudio) =
                    synthesizeVoice e st4 translated audioPath langTo voiceMode jobId
              in case runLipSync e st5 videoPath dubbedAudio quality jobId of
                   (st6, Inl err) \<Rightarrow> pipeline_catch e st6 jobId err
                 | (st6, Inr lipsyncPath) \<Rightarrow>
                     (case finalRender e st6 lipsyncPath jobId of
                        (st7, Inl err) \<Rightarrow> pipeline_catch e st7 jobId err
                      | (st7, Inr finalPath) \<Rightarrow>
                          (case generateSrt (disk st7) (dirname e) translated jobId of
                             Inl err \<Rightarrow> pipeline_catch e st7 jobId err
                           | Inr (fs', srtPath) \<Rightarrow>
                               update e (st7\<lparr>disk := fs'\<rparr>) jobId
                                 (no_updates\<lparr>u_status := Some Done, u_progress := Some 100,
                                    u_message := Some ''Dubbing complete!'',
                                    u_outputs := Some [(''video'', finalPath), (''srt'', srtPath),
                                                       (''audio'', dubbedAudio)]\<rparr>)))))"

text \<open>What a poller sees of one job along a run: its record after each write.\<close>

definition job_trace :: "pstate \<Rightarrow> string \<Rightarrow> job list" where
  "job_trace st jobId = List.map_filter (\<lambda>js. map_of js jobId) (history st)"


section \<open>A reference run\<close>

text \<open>
  A server in \<^verbatim>\<open>/srv\<close> with no provider configured, every external tool succeeding,
  Whisper's output unreadable (so the mock transcript is used), and the Wav2Lip model
  installed; and one freshly submitted job \<^verbatim>\<open>j1\<close>.
\<close>

definition env0 :: env where
  "env0 =
     \<lparr>dirname = ''/srv'', clock = (\<lambda>n. 1000 + int n),
      LIBRETRANSLATE_URL = None, DEEPL_API_KEY = None, XTTS_SERVER_URL = None,
      ELEVENLABS_API_KEY = None, WAV2LIP_MODEL = None,
      extractAudio_proc = Close (Some 0), extractFrames_proc = Close (Some 0),
      whisper_proc = Close (Some 0), whisper_json = None,
      libre_reply = Rejected, deepl_reply = Rejected, xtts_ok = False, eleven_audio = None,
      wav2lip_proc = Close (Some 0), merge_proc = Close (Some 0),
      render_proc = Close (Some 0)\<rparr>"

definition meta0 :: meta where
  "meta0 =
     \<lparr>m_videoPath = ''/srv/uploads/1-a.mp4'', m_langFrom = ''en'', m_langTo = ''es'',
      m_voiceMode = ''clone'', m_quality = ''balanced'', m_syncConfidence = 85 / 100,
      m_filename = ''a.mp4''\<rparr>"

definition disk0 :: fsys where
  "disk0 = \<lparr>files = [(''/srv/models/wav2lip_gan.pth'', ''model'')], denied = []\<rparr>"

text \<open>
  The same server with artifacts of \<^verbatim>\<open>j1\<close> in \<^verbatim>\<open>temp\<close>: the extracted audio, the
  lip-sync file (which may not be removed) and the frames directory with one frame.
\<close>

definition disk1 :: fsys where
  "disk1 =
     \<lparr>files = [(''/srv/models/wav2lip_gan.pth'', ''model''),
               (''/srv/temp/j1_audio.wav'', ''pcm''),
               (''/srv/temp/j1_lipsync.mp4'', ''mp4''),
               (''/srv/temp/j1_frames'', []),
               (''/srv/temp/j1_frames/frame_00001.jpg'', ''jpg'')],
      denied = [''/srv/temp/j1_lipsync.mp4'']\<rparr>"

definition state0 :: "fsys \<Rightarrow> pstate" where
  "state0 fs = \<lparr>jobs = fst (createJob [] 999 999 ''j1'' meta0), history = [], disk = fs\<rparr>"

definition run0 :: "env \<Rightarrow> fsys \<Rightarrow> pstate" where
  "run0 e fs = runPipeline e (state0 fs) ''j1'' ''/srv/uploads/1-a.mp4'' ''en'' ''es'' ''clone'' ''balanced''"

text \<open>
  The stores the server builds hold each id once and file every job under its own id.
\<close>

definition store_ok :: "store \<Rightarrow> bool" where
  "store_ok js = (distinct (map fst js) \<and> list_all (\<lambda>(k, j). job_id j = k) js)"

section \<open>Properties of the job store\<close>

lemma map_of_updateJob:
  "map_of (updateJob js now i u) k =
     (if k = i then map_option (\<lambda>j. assign j u now) (map_of js i) else map_of js k)"
  by (auto simp: updateJob_def update_conv' split: option.splits)

lemma keys_updateJob: "map fst (updateJob js now i u) = map fst js"
  by (auto simp: updateJob_def update_keys map_of_eq_None_iff split: option.splits)

text \<open>
  \<open>store_ok\<close> holds of the empty store and is kept by \<^verbatim>\<open>createJob\<close> and by every
  \<^verbatim>\<open>updateJob\<close> that does not name the field \<^verbatim>\<open>id\<close> (none in the source does).
\<close>

lemma list_all_update:
  "list_all (\<lambda>(k, j). job_id j = k) js \<Longrightarrow> job_id j = i \<Longrightarrow>
   list_all (\<lambda>(k, j). job_id j = k) (AList.update i j js)"
  by (induction js) auto

lemma store_ok_update:
  "store_ok js \<Longrightarrow> job_id j = i \<Longrightarrow> store_ok (AList.update i j js)"
  by (simp add: store_ok_def distinct_update list_all_update)

lemma store_ok_empty: "store_ok []"
  by (simp add: store_ok_def)

lemma store_ok_createJob: "store_ok js \<Longrightarrow> store_ok (fst (createJob js t1 t2 i m))"
  by (simp add: createJob_def Let_def store_ok_update)

lemma store_ok_lookup: "store_ok js \<Longrightarrow> map_of js i = Some j \<Longrightarrow> job_id j = i"
  by (induction js) (auto simp: store_ok_def split: if_splits)

lemma store_ok_updateJob:
  assumes "store_ok js" and "u_job_id u = None"
  shows "store_ok (updateJob js now i u)"
proof (cases "map_of js i")
  case None
  then show ?thesis
    using assms(1) by (simp add: updateJob_def)
next
  case (Some j)
  have "job_id (assign j u now) = i"
    using assms Some by (simp add: assign_def store_ok_lookup)
  then show ?thesis
    using assms(1) Some by (simp add: updateJob_def store_ok_update)
qed

text \<open>
  C7. \<^verbatim>\<open>updateJob\<close> on an id the store does not hold returns the store as it is. On
  a known id the job stays under its id, each field named in the partial-field set
  takes the given value, each field not named keeps its value, and \<open>updatedAt\<close> is the
  time of the call (whether named or not); no other job and no key changes.
\<close>

theorem updateJob_merge:
  "(map_of js i = None \<longrightarrow> updateJob js now i u = js) \<and>
   (\<forall>j. map_of js i = Some j \<longrightarrow>
      (\<exists>j'. map_of (updateJob js now i u) i = Some j' \<and>
         updatedAt j' = now \<and>
         job_id j' = (case u_job_id u of None \<Rightarrow> job_id j | Some v \<Rightarrow> v) \<and>
         status j' = (case u_status u of None \<Rightarrow> status j | Some v \<Rightarrow> v) \<and>
         stage j' = (case u_stage u of None \<Rightarrow> stage j | Some v \<Rightarrow> v) \<and>
         progress j' = (case u_progress u of None \<Rightarrow> progress j | Some v \<Rightarrow> v) \<and>
         message j' = (case u_message u of None \<Rightarrow> message j | Some v \<Rightarrow> v) \<and>
         meta j' = (case u_meta u of None \<Rightarrow> meta j | Some v \<Rightarrow> v) \<and>
         createdAt j' = (case u_createdAt u of None \<Rightarrow> createdAt j | Some v \<Rightarrow> v) \<and>
         outputs j' = (case u_outputs u of None \<Rightarrow> outputs j | Some v \<Rightarrow> v))) \<and>
   (\<forall>k. k \<noteq> i \<longrightarrow> map_of (updateJob js now i u) k = map_of js k) \<and>
   map fst (updateJob js now i u) = map fst js"
proof (intro conjI allI impI)
  assume "map_of js i = None"
  then show "updateJob js now i u = js"
    by (simp add: updateJob_def)
next
  fix j
  assume known: "map_of js i = Some j"
  have "map_of (updateJob js now i u) i = Some (assign j u now)"
    using known by (simp add: map_of_updateJob)
  then show "\<exists>j'. map_of (updateJob js now i u) i = Some j' \<and>
         updatedAt j' = now \<and>
         job_id j' = (case u_job_id u of None \<Rightarrow> job_id j | Some v \<Rightarrow> v) \<and>
         status j' = (case u_status u of None \<Rightarrow> status j | Some v \<Rightarrow> v) \<and>
         stage j' = (case u_stage u of None \<Rightarrow> stage j | Some v \<Rightarrow> v) \<and>
         progress j' = (case u_progress u of None \<Rightarrow> progress j | Some v \<Rightarrow> v) \<and>
         message j' = (case u_message u of None \<Rightarrow> message j | Some v \<Rightarrow> v) \<and>
         meta j' = (case u_meta u of None \<Rightarrow> meta j | Some v \<Rightarrow> v) \<and>
         createdAt j' = (case u_createdAt u of None \<Rightarrow> createdAt j | Some v \<Rightarrow> v) \<and>
         outputs j' = (case u_outputs u of None \<Rightarrow> outputs j | Some v \<Rightarrow> v)"
    by (simp add: assign_def)
next
  fix k
  assume "k \<noteq> i"
  then show "map_of (updateJob js now i u) k = map_of js k"
    by (simp add: map_of_updateJob)
next
  show "map fst (updateJob js now i u) = map fst js"
    by (rule keys_updateJob)
qed

theorem updateJob_merge_witness:
  "updateJob (fst (createJob [] 999 999 ''j1'' meta0)) 1000 ''zz''
       (no_updates\<lparr>u_progress := Some 8\<rparr>) = fst (createJob [] 999 999 ''j1'' meta0) \<and>
   (\<exists>j'. map_of (updateJob (fst (createJob [] 999 999 ''j1'' meta0)) 1000 ''j1''
                    (no_updates\<lparr>u_progress := Some 8\<rparr>)) ''j1'' = Some j' \<and>
         updatedAt j' = 1000 \<and> progress j' = 8 \<and> status j' = Queued \<and> stage j' = None \<and>
         outputs j' = [] \<and> createdAt j' = 999)"
proof -
  let ?js = "fst (createJob [] 999 999 ''j1'' meta0)"
  let ?u = "no_updates\<lparr>u_progress := Some 8\<rparr>"
  have unknown: "map_of ?js ''zz'' = None"
    by (simp add: createJob_def Let_def)
  have known: "map_of ?js ''j1'' =
      Some \<lparr>job_id = ''j1'', status = Queued, stage = None, progress = 0, message = [],
            meta = meta0, createdAt = 999, updatedAt = 999, outputs = []\<rparr>"
    by (simp add: createJob_def Let_def)
  have a: "updateJob ?js 1000 ''zz'' ?u = ?js"
    using updateJob_merge [of ?js "''zz''" 1000 ?u] unknown by blast
  have "\<forall>j. map_of ?js ''j1'' = Some j \<longrightarrow>
      (\<exists>j'. map_of (updateJob ?js 1000 ''j1'' ?u) ''j1'' = Some j' \<and>
         updatedAt j' = 1000 \<and>
         job_id j' = (case u_job_id ?u of None \<Rightarrow> job_id j | Some v \<Rightarrow> v) \<and>
         status j' = (case u_status ?u of None \<Rightarrow> status j | Some v \<Rightarrow> v) \<and>
         stage j' = (case u_stage ?u of None \<Rightarrow> stage j | Some v \<Rightarrow> v) \<and>
         progress j' = (case u_progress ?u of None \<Rightarrow> progress j | Some v \<Rightarrow> v) \<and>
         message j' = (case u_message ?u of None \<Rightarrow> message j | Some v \<Rightarrow> v) \<and>
         meta j' = (case u_meta ?u of None \<Rightarrow> meta j | Some v \<Rightarrow> v) \<and>
         createdAt j' = (case u_createdAt ?u of None \<Rightarrow> createdAt j | Some v \<Rightarrow> v) \<and>
         outputs j' = (case u_outputs ?u of None \<Rightarrow> outputs j | Some v \<Rightarrow> v))"
    using updateJob_merge [of ?js "''j1''" 1000 ?u] by (elim conjE)
  from this [rule_format, OF known]
  have b: "\<exists>j'. map_of (updateJob ?js 1000 ''j1'' ?u) ''j1'' = Some j' \<and>
         updatedAt j' = 1000 \<and> progress j' = 8 \<and> status j' = Queued \<and> stage j' = None \<and>
         outputs j' = [] \<and> createdAt j' = 999"
    by (simp add: no_updates_def) blast
  show ?thesis
    using a b by (rule conjI)
qed

section \<open>Deletion and cleanup\<close>

lemma try_catch_empty_returns: "\<exists>s'. try_catch_empty s r = Inr s'"
  by (cases r) (simp_all add: try_catch_empty_def)

lemma forEach_returns:
  assumes "\<And>s x. \<exists>s'. f s x = Inr s'"
  shows "\<exists>s'. forEach xs f s = Inr s'"
proof (induction xs arbitrary: s)
  case Nil
  show ?case by simp
next
  case (Cons x xs)
  obtain s1 where "f s x = Inr s1"
    using assms by blast
  then show ?case
    using Cons.IH [of s1] by simp
qed

lemma cleanupTemp_returns: "\<exists>fs'. cleanupTemp fs d i = Inr fs'"
proof -
  let ?f = "\<lambda>fs1 suffix.
                let p = path_join [d, ''temp'', i @ suffix]
                in try_catch_empty fs1 (if existsSync fs1 p then unlinkSync fs1 p else Inr fs1)"
  have "\<exists>s'. forEach [''_audio.wav'', ''_dubbed.wav'', ''_lipsync.mp4''] ?f fs = Inr s'"
    by (rule forEach_returns) (simp add: Let_def try_catch_empty_returns)
  then obtain fs2 where "forEach [''_audio.wav'', ''_dubbed.wav'', ''_lipsync.mp4''] ?f fs = Inr fs2"
    by blast
  then show ?thesis
    unfolding cleanupTemp_def
    by (simp add: Let_def try_catch_empty_returns)
qed

lemma cleanupTemp_absent:
  assumes "\<not> existsSync fs (path_join [d, ''temp'', i @ ''_audio.wav''])"
    and "\<not> existsSync fs (path_join [d, ''temp'', i @ ''_dubbed.wav''])"
    and "\<not> existsSync fs (path_join [d, ''temp'', i @ ''_lipsync.mp4''])"
    and "\<not> existsSync fs (path_join [d, ''temp'', i @ ''_frames''])"
  shows "cleanupTemp fs d i = Inr fs"
  using assms by (simp add: cleanupTemp_def Let_def try_catch_empty_def)

lemma app_jobs_delete:
  "store_ok js \<Longrightarrow>
   snd (app_jobs (AList.delete i js)) = filter (\<lambda>s. s_id s \<noteq> i) (snd (app_jobs js))"
  by (induction js) (auto simp: store_ok_def app_jobs_def Let_def)

lemma length_delete_known:
  "distinct (map fst js) \<Longrightarrow> map_of js i = Some j \<Longrightarrow> Suc (length (AList.delete i js)) = length js"
  by (induction js) (auto simp: delete_id image_iff map_of_eq_None_iff split: if_splits)


text \<open>
  What \<^verbatim>\<open>cleanupTemp\<close> does to the file system: each of the three artifact files is
  removed unless its removal throws, the frames directory is removed with everything
  below it if it exists and its removal does not throw, and nothing else changes.
\<close>

lemma map_of_filter_keys:
  "map_of (filter (\<lambda>(k, _). P k) al) q = (if P q then map_of al q else None)"
  by (induction al) auto

lemma unlink_step:
  "try_catch_empty s (if existsSync s p then unlinkSync s p else Inr s) =
     Inr (if p \<in> set (denied s) then s else s\<lparr>files := AList.delete p (files s)\<rparr>)"
  by (auto simp: try_catch_empty_def existsSync_def unlinkSync_def map_of_eq_None_iff delete_id)

lemma rm_step:
  "try_catch_empty s (if existsSync s p then rmSync s p else Inr s) =
     Inr (if existsSync s p \<and> p \<notin> set (denied s)
          then s\<lparr>files := filter (\<lambda>(q, _). q \<noteq> p \<and> \<not> prefix (p @ ''/'') q) (files s)\<rparr>
          else s)"
  by (auto simp: try_catch_empty_def existsSync_def rmSync_def)

lemma cleanupTemp_effect:
  "\<exists>fs'. cleanupTemp fs d i = Inr fs' \<and> denied fs' = denied fs \<and>
     (\<forall>q. map_of (files fs') q =
        (if (q \<in> set (map (\<lambda>s. path_join [d, ''temp'', i @ s])
                        [''_audio.wav'', ''_dubbed.wav'', ''_lipsync.mp4'']) \<and>
             q \<notin> set (denied fs)) \<or>
            (existsSync fs (path_join [d, ''temp'', i @ ''_frames'']) \<and>
             path_join [d, ''temp'', i @ ''_frames''] \<notin> set (denied fs) \<and>
             (q = path_join [d, ''temp'', i @ ''_frames''] \<or>
              prefix (path_join [d, ''temp'', i @ ''_frames''] @ ''/'') q))
         then None else map_of (files fs) q))"
proof -
  define rmv where "rmv p s = (if p \<in> set (denied s) then s
                               else s\<lparr>files := AList.delete p (files s)\<rparr>)" for p and s :: fsys
  define pa where "pa = path_join [d, ''temp'', i @ ''_audio.wav'']"
  define pb where "pb = path_join [d, ''temp'', i @ ''_dubbed.wav'']"
  define pc where "pc = path_join [d, ''temp'', i @ ''_lipsync.mp4'']"
  define F where "F = path_join [d, ''temp'', i @ ''_frames'']"
  define fs3 where "fs3 = rmv pc (rmv pb (rmv pa fs))"
  define fs4 where "fs4 = (if existsSync fs3 F \<and> F \<notin> set (denied fs3)
          then fs3\<lparr>files := filter (\<lambda>(q, _). q \<noteq> F \<and> \<not> prefix (F @ ''/'') q) (files fs3)\<rparr>
          else fs3)"
  have distinct_paths: "F \<noteq> pa" "F \<noteq> pb" "F \<noteq> pc"
    by (simp_all add: F_def pa_def pb_def pc_def path_join_def)
  have denied_rmv: "denied (rmv p s) = denied s" for p s
    by (simp add: rmv_def)
  have files_rmv: "map_of (files (rmv p s)) q =
      (if q = p \<and> p \<notin> set (denied s) then None else map_of (files s) q)" for p s q
    by (simp add: rmv_def delete_conv')
  have run: "cleanupTemp fs d i = Inr fs4"
    unfolding cleanupTemp_def
    by (simp add: Let_def unlink_step rm_step rmv_def [symmetric] pa_def [symmetric]
          pb_def [symmetric] pc_def [symmetric] F_def [symmetric] fs3_def [symmetric]
          fs4_def [symmetric])
  have denied3: "denied fs3 = denied fs"
    by (simp add: fs3_def denied_rmv)
  have files3: "map_of (files fs3) q =
      (if (q = pa \<or> q = pb \<or> q = pc) \<and> q \<notin> set (denied fs) then None
       else map_of (files fs) q)" for q
    by (auto simp: fs3_def files_rmv denied_rmv)
  have exists3: "existsSync fs3 F = existsSync fs F"
    using distinct_paths by (simp add: existsSync_def files3)
  have denied4: "denied fs4 = denied fs"
    by (simp add: fs4_def denied3)
  have files4: "map_of (files fs4) q =
      (if ((q = pa \<or> q = pb \<or> q = pc) \<and> q \<notin> set (denied fs)) \<or>
          (existsSync fs F \<and> F \<notin> set (denied fs) \<and> (q = F \<or> prefix (F @ ''/'') q))
       then None else map_of (files fs) q)" for q
    by (auto simp: fs4_def exists3 denied3 files3 map_of_filter_keys)
  show ?thesis
    using run denied4 files4
    by (simp add: pa_def pb_def pc_def F_def)
qed

text \<open>
  C9. Deleting an id the store does not hold answers 404 \<^verbatim>\<open>Job not found\<close> and leaves
  store and file system, hence the job count, as they were. Deleting a known id (in a
  store that files each job once, under its own id) answers 200 with the file system
  \<^verbatim>\<open>cleanupTemp\<close> leaves, and afterwards the listing is the former listing without that
  job, one entry shorter. \<^verbatim>\<open>cleanupTemp\<close> returns normally on every file system; in its
  result each of the job's three artifact files is gone unless its removal throws, the
  frames directory is gone with everything below it if it existed and its removal does
  not throw, and every other path holds what it held; with none of the four artifacts
  present the file system is unchanged.
\<close>

theorem app_delete_contract:
  "(map_of js i = None \<longrightarrow>
      app_delete (js, fs) d i =
        ((js, fs), \<lparr>res_status = 404, res_json = (''error'', ''Job not found'')\<rparr>) \<and>
      fst (app_jobs (fst (fst (app_delete (js, fs) d i)))) = fst (app_jobs js)) \<and>
   (\<forall>j. store_ok js \<and> map_of js i = Some j \<longrightarrow>
      (\<exists>fs'. cleanupTemp fs d i = Inr fs' \<and>
         app_delete (js, fs) d i =
           ((AList.delete i js, fs'),
            \<lparr>res_status = 200, res_json = (''message'', ''Job deleted'')\<rparr>)) \<and>
      snd (app_jobs (fst (fst (app_delete (js, fs) d i)))) =
        filter (\<lambda>s. s_id s \<noteq> i) (snd (app_jobs js)) \<and>
      i \<notin> s_id ` set (snd (app_jobs (fst (fst (app_delete (js, fs) d i))))) \<and>
      Suc (fst (app_jobs (fst (fst (app_delete (js, fs) d i))))) = fst (app_jobs js)) \<and>
   (\<exists>fs'. cleanupTemp fs d i = Inr fs' \<and> denied fs' = denied fs \<and>
      (\<forall>q. map_of (files fs') q =
         (if (q \<in> set (map (\<lambda>s. path_join [d, ''temp'', i @ s])
                         [''_audio.wav'', ''_dubbed.wav'', ''_lipsync.mp4'']) \<and>
              q \<notin> set (denied fs)) \<or>
             (existsSync fs (path_join [d, ''temp'', i @ ''_frames'']) \<and>
              path_join [d, ''temp'', i @ ''_frames''] \<notin> set (denied fs) \<and>
              (q = path_join [d, ''temp'', i @ ''_frames''] \<or>
               prefix (path_join [d, ''temp'', i @ ''_frames''] @ ''/'') q))
          then None else map_of (files fs) q))) \<and>
   (\<not> existsSync fs (path_join [d, ''temp'', i @ ''_audio.wav'']) \<and>
    \<not> existsSync fs (path_join [d, ''temp'', i @ ''_dubbed.wav'']) \<and>
    \<not> existsSync fs (path_join [d, ''temp'', i @ ''_lipsync.mp4'']) \<and>
    \<not> existsSync fs (path_join [d, ''temp'', i @ ''_frames'']) \<longrightarrow>
      cleanupTemp fs d i = Inr fs)"
proof (intro conjI allI impI)
  assume "map_of js i = None"
  then show "app_delete (js, fs) d i =
        ((js, fs), \<lparr>res_status = 404, res_json = (''error'', ''Job not found'')\<rparr>)"
    by (simp add: app_delete_def)
  then show "fst (app_jobs (fst (fst (app_delete (js, fs) d i)))) = fst (app_jobs js)"
    by simp
next
  fix j
  assume h: "store_ok js \<and> map_of js i = Some j"
  obtain fs' where c: "cleanupTemp fs d i = Inr fs'"
    using cleanupTemp_returns by blast
  have del: "app_delete (js, fs) d i =
      ((AList.delete i js, fs'), \<lparr>res_status = 200, res_json = (''message'', ''Job deleted'')\<rparr>)"
    using h c by (simp add: app_delete_def)
  show "\<exists>fs'. cleanupTemp fs d i = Inr fs' \<and>
         app_delete (js, fs) d i =
           ((AList.delete i js, fs'),
            \<lparr>res_status = 200, res_json = (''message'', ''Job deleted'')\<rparr>)"
    using c del by blast
  show listed: "snd (app_jobs (fst (fst (app_delete (js, fs) d i)))) =
        filter (\<lambda>s. s_id s \<noteq> i) (snd (app_jobs js))"
    using h by (simp add: del app_jobs_delete)
  show "i \<notin> s_id ` set (snd (app_jobs (fst (fst (app_delete (js, fs) d i)))))"
    unfolding listed by auto
  show "Suc (fst (app_jobs (fst (fst (app_delete (js, fs) d i))))) = fst (app_jobs js)"
    using h length_delete_known [of js i j]
    by (simp add: del app_jobs_def Let_def store_ok_def)
next
  show "\<exists>fs'. cleanupTemp fs d i = Inr fs' \<and> denied fs' = denied fs \<and>
      (\<forall>q. map_of (files fs') q =
         (if (q \<in> set (map (\<lambda>s. path_join [d, ''temp'', i @ s])
                         [''_audio.wav'', ''_dubbed.wav'', ''_lipsync.mp4'']) \<and>
              q \<notin> set (denied fs)) \<or>
             (existsSync fs (path_join [d, ''temp'', i @ ''_frames'']) \<and>
              path_join [d, ''temp'', i @ ''_frames''] \<notin> set (denied fs) \<and>
              (q = path_join [d, ''temp'', i @ ''_frames''] \<or>
               prefix (path_join [d, ''temp'', i @ ''_frames''] @ ''/'') q))
          then None else map_of (files fs) q))"
    by (rule cleanupTemp_effect)
next
  assume "\<not> existsSync fs (path_join [d, ''temp'', i @ ''_audio.wav'']) \<and>
    \<not> existsSync fs (path_join [d, ''temp'', i @ ''_dubbed.wav'']) \<and>
    \<not> existsSync fs (path_join [d, ''temp'', i @ ''_lipsync.mp4'']) \<and>
    \<not> existsSync fs (path_join [d, ''temp'', i @ ''_frames''])"
  then show "cleanupTemp fs d i = Inr fs"
    by (simp add: cleanupTemp_absent)
qed

theorem app_delete_contract_witness:
  "app_delete (fst (createJob [] 999 999 ''j1'' meta0), disk0) ''/srv'' ''zz'' =
     ((fst (createJob [] 999 999 ''j1'' meta0), disk0),
      \<lparr>res_status = 404, res_json = (''error'', ''Job not found'')\<rparr>) \<and>
   app_delete (fst (createJob [] 999 999 ''j1'' meta0), disk0) ''/srv'' ''j1'' =
     (([], disk0), \<lparr>res_status = 200, res_json = (''message'', ''Job deleted'')\<rparr>) \<and>
   snd (app_jobs (fst (fst (app_delete (fst (createJob [] 999 999 ''j1'' meta0), disk0) ''/srv'' ''j1'')))) = [] \<and>
   fst (app_jobs (fst (createJob [] 999 999 ''j1'' meta0))) = 1 \<and>
   cleanupTemp disk0 ''/srv'' ''j1'' = Inr disk0 \<and>
   existsSync disk1 ''/srv/temp/j1_audio.wav'' \<and>
   existsSync disk1 ''/srv/temp/j1_frames/frame_00001.jpg'' \<and>
   (\<exists>fs'. app_delete (fst (createJob [] 999 999 ''j1'' meta0), disk1) ''/srv'' ''j1'' =
            (([], fs'), \<lparr>res_status = 200, res_json = (''message'', ''Job deleted'')\<rparr>) \<and>
      denied fs' = [''/srv/temp/j1_lipsync.mp4''] \<and>
      map_of (files fs') ''/srv/temp/j1_audio.wav'' = None \<and>
      map_of (files fs') ''/srv/temp/j1_frames'' = None \<and>
      map_of (files fs') ''/srv/temp/j1_frames/frame_00001.jpg'' = None \<and>
      map_of (files fs') ''/srv/temp/j1_lipsync.mp4'' = Some ''mp4'' \<and>
      map_of (files fs') ''/srv/models/wav2lip_gan.pth'' = Some ''model'')"
proof -
  let ?js = "fst (createJob [] 999 999 ''j1'' meta0)"
  let ?j = "\<lparr>job_id = ''j1'', status = Queued, stage = None, progress = 0, message = [],
            meta = meta0, createdAt = 999, updatedAt = 999, outputs = []\<rparr>"
  have js: "?js = [(''j1'', ?j)]"
    by (simp add: createJob_def Let_def)
  have unknown: "map_of ?js ''zz'' = None"
    by (simp add: js)
  have known: "store_ok ?js \<and> map_of ?js ''j1'' = Some ?j"
    by (simp add: js store_ok_def)
  have absent: "\<not> existsSync disk0 (path_join [''/srv'', ''temp'', ''j1'' @ ''_audio.wav'']) \<and>
    \<not> existsSync disk0 (path_join [''/srv'', ''temp'', ''j1'' @ ''_dubbed.wav'']) \<and>
    \<not> existsSync disk0 (path_join [''/srv'', ''temp'', ''j1'' @ ''_lipsync.mp4'']) \<and>
    \<not> existsSync disk0 (path_join [''/srv'', ''temp'', ''j1'' @ ''_frames''])"
    by (simp add: existsSync_def disk0_def path_join_def)
  note inst = app_delete_contract [of ?js "''j1''" disk0 "''/srv''"]
  have c: "cleanupTemp disk0 ''/srv'' ''j1'' = Inr disk0"
    using inst absent by blast
  have a: "app_delete (?js, disk0) ''/srv'' ''zz'' =
     ((?js, disk0), \<lparr>res_status = 404, res_json = (''error'', ''Job not found'')\<rparr>)"
    using app_delete_contract [of ?js "''zz''" disk0 "''/srv''"] unknown by blast
  have "\<exists>fs'. cleanupTemp disk0 ''/srv'' ''j1'' = Inr fs' \<and>
         app_delete (?js, disk0) ''/srv'' ''j1'' =
           ((AList.delete ''j1'' ?js, fs'),
            \<lparr>res_status = 200, res_json = (''message'', ''Job deleted'')\<rparr>)"
    using inst known by blast
  then have b: "app_delete (?js, disk0) ''/srv'' ''j1'' =
     (([], disk0), \<lparr>res_status = 200, res_json = (''message'', ''Job deleted'')\<rparr>)"
    using c by (auto simp: js)
  have l: "snd (app_jobs (fst (fst (app_delete (?js, disk0) ''/srv'' ''j1'')))) = []"
    by (simp add: b app_jobs_def)
  have n: "fst (app_jobs ?js) = 1"
    by (simp add: js app_jobs_def)
  have e: "existsSync disk1 ''/srv/temp/j1_audio.wav'' \<and>
           existsSync disk1 ''/srv/temp/j1_frames/frame_00001.jpg''"
    by (simp add: existsSync_def disk1_def)
  note inst1 = app_delete_contract [of ?js "''j1''" disk1 "''/srv''"]
  obtain fs1 where d1: "cleanupTemp disk1 ''/srv'' ''j1'' = Inr fs1"
    and del1: "app_delete (?js, disk1) ''/srv'' ''j1'' =
           ((AList.delete ''j1'' ?js, fs1),
            \<lparr>res_status = 200, res_json = (''message'', ''Job deleted'')\<rparr>)"
    using inst1 known by blast
  obtain fs2 where d2: "cleanupTemp disk1 ''/srv'' ''j1'' = Inr fs2"
    and den: "denied fs2 = denied disk1"
    and fl: "\<forall>q. map_of (files fs2) q =
         (if (q \<in> set (map (\<lambda>s. path_join [''/srv'', ''temp'', ''j1'' @ s])
                         [''_audio.wav'', ''_dubbed.wav'', ''_lipsync.mp4'']) \<and>
              q \<notin> set (denied disk1)) \<or>
             (existsSync disk1 (path_join [''/srv'', ''temp'', ''j1'' @ ''_frames'']) \<and>
              path_join [''/srv'', ''temp'', ''j1'' @ ''_frames''] \<notin> set (denied disk1) \<and>
              (q = path_join [''/srv'', ''temp'', ''j1'' @ ''_frames''] \<or>
               prefix (path_join [''/srv'', ''temp'', ''j1'' @ ''_frames''] @ ''/'') q))
          then None else map_of (files disk1) q)"
    using inst1 by blast
  have same: "fs2 = fs1"
    using d1 d2 by simp
  have f: "app_delete (?js, disk1) ''/srv'' ''j1'' =
            (([], fs1), \<lparr>res_status = 200, res_json = (''message'', ''Job deleted'')\<rparr>) \<and>
      denied fs1 = [''/srv/temp/j1_lipsync.mp4''] \<and>
      map_of (files fs1) ''/srv/temp/j1_audio.wav'' = None \<and>
      map_of (files fs1) ''/srv/temp/j1_frames'' = None \<and>
      map_of (files fs1) ''/srv/temp/j1_frames/frame_00001.jpg'' = None \<and>
      map_of (files fs1) ''/srv/temp/j1_lipsync.mp4'' = Some ''mp4'' \<and>
      map_of (files fs1) ''/srv/models/wav2lip_gan.pth'' = Some ''model''"
    using del1 den fl unfolding same
    by (simp add: js disk1_def path_join_def existsSync_def)
  show ?thesis
    using a b l n c e f by blast
qed

section \<open>Subtitles and the placeholder translation\<close>

lemma fmtSrtTime_0: "fmtSrtTime 0 = ''00:00:00,000''"
  by code_simp

lemma fmtSrtTime_2500: "fmtSrtTime (5 / 2) = ''00:00:02,500''"
  by code_simp

lemma fmtSrtTime_5: "fmtSrtTime 5 = ''00:00:05,000''"
  by code_simp

lemma String_of_1: "String_of 1 = ''1''"
  by code_simp

lemma String_of_2: "String_of 2 = ''2''"
  by code_simp

text \<open>
  C6. For the translated segments \<^verbatim>\<open>[{start:0.0,end:2.5,text:"A"},{start:2.5,end:5.0,text:"B"}]\<close>
  (whatever their \<^verbatim>\<open>id\<close> and the other fields of the transcript) the subtitle content
  is cue 1 with the line \<^verbatim>\<open>00:00:00,000 --> 00:00:02,500\<close> and the text A, an empty
  line, and cue 2 with the line \<^verbatim>\<open>00:00:02,500 --> 00:00:05,000\<close> and the text B; and this content is what
  \<^verbatim>\<open>generateSrt\<close> writes to the job's subtitle file.
\<close>

theorem generateSrt_two_cues:
  "srt_content
     \<lparr>tr_text = t,
      segments = Some [\<lparr>seg_id = a, seg_start = 0, seg_end = 5 / 2, seg_text = ''A''\<rparr>,
                       \<lparr>seg_id = b, seg_start = 5 / 2, seg_end = 5, seg_text = ''B''\<rparr>],
      language = l, translatedText = tt\<rparr> =
     ''1'' @ nl @ ''00:00:00,000 --> 00:00:02,500'' @ nl @ ''A'' @ nl @ nl @
     ''2'' @ nl @ ''00:00:02,500 --> 00:00:05,000'' @ nl @ ''B'' @ nl \<and>
   generateSrt fs d
     \<lparr>tr_text = t,
      segments = Some [\<lparr>seg_id = a, seg_start = 0, seg_end = 5 / 2, seg_text = ''A''\<rparr>,
                       \<lparr>seg_id = b, seg_start = 5 / 2, seg_end = 5, seg_text = ''B''\<rparr>],
      language = l, translatedText = tt\<rparr> i =
     (case writeFileSync fs (path_join [d, ''outputs'', i @ ''_subtitles.srt''])
             (''1'' @ nl @ ''00:00:00,000 --> 00:00:02,500'' @ nl @ ''A'' @ nl @ nl @
              ''2'' @ nl @ ''00:00:02,500 --> 00:00:05,000'' @ nl @ ''B'' @ nl) of
        Inl e \<Rightarrow> Inl e
      | Inr fs' \<Rightarrow> Inr (fs', path_join [d, ''outputs'', i @ ''_subtitles.srt'']))"
proof -
  let ?tr = "\<lparr>tr_text = t,
      segments = Some [\<lparr>seg_id = a, seg_start = 0, seg_end = 5 / 2, seg_text = ''A''\<rparr>,
                       \<lparr>seg_id = b, seg_start = 5 / 2, seg_end = 5, seg_text = ''B''\<rparr>],
      language = l, translatedText = tt\<rparr>"
  have content: "srt_content ?tr =
     ''1'' @ nl @ ''00:00:00,000 --> 00:00:02,500'' @ nl @ ''A'' @ nl @ nl @
     ''2'' @ nl @ ''00:00:02,500 --> 00:00:05,000'' @ nl @ ''B'' @ nl"
    by (simp add: srt_content_def srt_cue_def enumerate_eq_zip upt_rec
          fmtSrtTime_0 fmtSrtTime_2500 fmtSrtTime_5 String_of_1 String_of_2)
  have "generateSrt fs d ?tr i =
     (case writeFileSync fs (path_join [d, ''outputs'', i @ ''_subtitles.srt''])
             (srt_content ?tr) of
        Inl e \<Rightarrow> Inl e
      | Inr fs' \<Rightarrow> Inr (fs', path_join [d, ''outputs'', i @ ''_subtitles.srt'']))"
    by (simp add: generateSrt_def Let_def split: sum.splits)
  then show ?thesis
    using content by simp
qed

text \<open>
  C10. For a translated transcript without \<open>segments\<close> the subtitle content is exactly
  one cue, numbered 1, spanning \<^verbatim>\<open>00:00:00,000 --> 00:00:05,000\<close>, whose text is
  \<open>translatedText\<close>, or the empty string when that is absent too; and this content is
  what \<^verbatim>\<open>generateSrt\<close> writes to the job's subtitle file.
\<close>

theorem generateSrt_no_segments:
  "srt_content (tr\<lparr>segments := None\<rparr>) =
     ''1'' @ nl @ ''00:00:00,000 --> 00:00:05,000'' @ nl @
     (case translatedText tr of None \<Rightarrow> [] | Some t \<Rightarrow> t) @ nl \<and>
   generateSrt fs d (tr\<lparr>segments := None\<rparr>) i =
     (case writeFileSync fs (path_join [d, ''outputs'', i @ ''_subtitles.srt''])
             (''1'' @ nl @ ''00:00:00,000 --> 00:00:05,000'' @ nl @
              (case translatedText tr of None \<Rightarrow> [] | Some t \<Rightarrow> t) @ nl) of
        Inl e \<Rightarrow> Inl e
      | Inr fs' \<Rightarrow> Inr (fs', path_join [d, ''outputs'', i @ ''_subtitles.srt'']))"
proof -
  have content: "srt_content (tr\<lparr>segments := None\<rparr>) =
     ''1'' @ nl @ ''00:00:00,000 --> 00:00:05,000'' @ nl @
     (case translatedText tr of None \<Rightarrow> [] | Some t \<Rightarrow> t) @ nl"
    by (simp add: srt_content_def srt_cue_def fmtSrtTime_0 fmtSrtTime_5 String_of_1)
  have "generateSrt fs d (tr\<lparr>segments := None\<rparr>) i =
     (case writeFileSync fs (path_join [d, ''outputs'', i @ ''_subtitles.srt''])
             (srt_content (tr\<lparr>segments := None\<rparr>)) of
        Inl e \<Rightarrow> Inl e
      | Inr fs' \<Rightarrow> Inr (fs', path_join [d, ''outputs'', i @ ''_subtitles.srt'']))"
    by (simp add: generateSrt_def Let_def split: sum.splits)
  then show ?thesis
    using content by simp
qed

text \<open>
  C5. When neither \<^verbatim>\<open>LIBRETRANSLATE_URL\<close> nor \<^verbatim>\<open>DEEPL_API_KEY\<close> is set (undefined or
  empty), \<^verbatim>\<open>translateText\<close> returns the transcript with \<open>translatedText\<close> equal to
  \<^verbatim>\<open>[Translated to <target>]: <original text>\<close> and every other field as it was.
\<close>

theorem translateText_placeholder:
  assumes "\<not> truthy (LIBRETRANSLATE_URL e)" and "\<not> truthy (DEEPL_API_KEY e)"
  shows "snd (translateText e st tr fromLang toLang i) =
           tr\<lparr>translatedText := Some (''[Translated to '' @ toLang @ '']: '' @ tr_text tr)\<rparr>"
  using assms by (simp add: translateText_def Let_def)

theorem translateText_placeholder_witness:
  "\<not> truthy (LIBRETRANSLATE_URL env0) \<and> \<not> truthy (DEEPL_API_KEY env0) \<and>
   translatedText (snd (translateText env0 (state0 disk0) getMockTranscript ''en'' ''es'' ''j1'')) =
     Some ''[Translated to es]: Hello, welcome to this demonstration of the SyncLab dubbing engine.''"
proof -
  have a: "\<not> truthy (LIBRETRANSLATE_URL env0)"
    by (simp add: env0_def truthy_def)
  have b: "\<not> truthy (DEEPL_API_KEY env0)"
    by (simp add: env0_def truthy_def)
  show ?thesis
    using a b translateText_placeholder [OF a b, of "state0 disk0" getMockTranscript "''en''" "''es''" "''j1''"]
    by (simp add: getMockTranscript_def)
qed

section \<open>The pipeline\<close>

lemma jobs_update:
  "map_of (jobs (update e st i u)) k =
     (if k = i then map_option (\<lambda>j. assign j u (clock e (length (history st)))) (map_of (jobs st) i)
      else map_of (jobs st) k)"
  by (simp add: update_def Let_def map_of_updateJob)

lemma history_update: "history (update e st i u) = history st @ [jobs (update e st i u)]"
  by (simp add: update_def Let_def)

lemma disk_update: "disk (update e st i u) = disk st"
  by (simp add: update_def Let_def)

text \<open>
  C8. When the encoder cannot be launched (\<^verbatim>\<open>spawn\<close> reports \<^verbatim>\<open>error\<close>), \<^verbatim>\<open>finalRender\<close>
  resolves with the lip-sync stage's file itself, and the job, if the store holds it,
  is marked \<open>Done\<close> at progress 100 with that file as its only output, \<open>video\<close>.
\<close>

theorem finalRender_encoder_unavailable:
  assumes "render_proc e = SpawnError" and "map_of (jobs st) i = Some j"
  shows "snd (finalRender e st p i) = Inr p \<and>
         (\<exists>j'. map_of (jobs (fst (finalRender e st p i))) i = Some j' \<and>
            status j' = Done \<and> progress j' = 100 \<and> stage j' = Some ''complete'' \<and>
            outputs j' = [(''video'', p)])"
  using assms
  by (simp add: finalRender_def Let_def jobs_update assign_def no_updates_def)

theorem finalRender_encoder_unavailable_witness:
  "render_proc (env0\<lparr>render_proc := SpawnError\<rparr>) = SpawnError \<and>
   snd (finalRender (env0\<lparr>render_proc := SpawnError\<rparr>) (state0 disk0)
          ''/srv/temp/j1_lipsync.mp4'' ''j1'') = Inr ''/srv/temp/j1_lipsync.mp4'' \<and>
   (\<exists>j'. map_of (jobs (fst (finalRender (env0\<lparr>render_proc := SpawnError\<rparr>) (state0 disk0)
                               ''/srv/temp/j1_lipsync.mp4'' ''j1''))) ''j1'' = Some j' \<and>
      status j' = Done \<and> progress j' = 100 \<and> stage j' = Some ''complete'' \<and>
      outputs j' = [(''video'', ''/srv/temp/j1_lipsync.mp4'')])"
proof -
  have a: "render_proc (env0\<lparr>render_proc := SpawnError\<rparr>) = SpawnError"
    by simp
  have b: "map_of (jobs (state0 disk0)) ''j1'' =
      Some \<lparr>job_id = ''j1'', status = Queued, stage = None, progress = 0, message = [],
            meta = meta0, createdAt = 999, updatedAt = 999, outputs = []\<rparr>"
    by (simp add: state0_def createJob_def Let_def)
  show ?thesis
    using a finalRender_encoder_unavailable [OF a b, of "''/srv/temp/j1_lipsync.mp4''"]
    by simp
qed

text \<open>
  The reference run with the encoder missing at the render stage: the job ends
  \<open>Done\<close> at 100 and its video is the lip-sync intermediate file.
\<close>

lemma render_fallback_end_to_end:
  "map (\<lambda>j. (status j, progress j, outputs j))
     (drop 12 (job_trace (run0 (env0\<lparr>render_proc := SpawnError\<rparr>) disk0) ''j1'')) =
   [(Done, 100, [(''video'', ''/srv/temp/j1_lipsync.mp4'')]),
    (Done, 100, [(''video'', ''/srv/temp/j1_lipsync.mp4''),
                 (''srt'', ''/srv/outputs/j1_subtitles.srt''),
                 (''audio'', ''/srv/temp/j1_audio.wav'')])]"
  by code_simp

text \<open>
  C4. When the audio extraction fails (ffmpeg exits with a code other than 0, is
  killed, or cannot be launched), \<^verbatim>\<open>extractAudio\<close> rejects, and \<^verbatim>\<open>runPipeline\<close> on a job
  the store holds ends with that job in status \<open>Error\<close>, its message the rejection's
  message, its stage and progress those written on entering the extraction, and its
  outputs what they were (empty for a job as \<^verbatim>\<open>createJob\<close> makes it). Exactly three
  writes happened (running, entering the extraction, the error): no later stage ran.
\<close>

theorem runPipeline_extract_failure:
  assumes "extractAudio_proc e \<noteq> Close (Some 0)" and "map_of (jobs st) i = Some j"
  shows "snd (extractAudio e (update e st i (no_updates\<lparr>u_status := Some Running\<rparr>)) v i) =
           Inl (JsError (case extractAudio_proc e of
                           Close code \<Rightarrow> ''ffmpeg audio extraction failed (code ''
                              @ (case code of None \<Rightarrow> ''null'' | Some c \<Rightarrow> String_of c) @ '')''
                         | SpawnError \<Rightarrow> ''ffmpeg not found '' @ em_dash @ '' please install ffmpeg'')) \<and>
         map_of (jobs (runPipeline e st i v lf lt vm q)) i =
           Some (j\<lparr>status := Error, stage := Some ''pill-extract'', progress := 8,
                   message := (case extractAudio_proc e of
                           Close code \<Rightarrow> ''ffmpeg audio extraction failed (code ''
                              @ (case code of None \<Rightarrow> ''null'' | Some c \<Rightarrow> String_of c) @ '')''
                         | SpawnError \<Rightarrow> ''ffmpeg not found '' @ em_dash @ '' please install ffmpeg''),
                   updatedAt := clock e (length (history st) + 2)\<rparr>) \<and>
         map_option outputs (map_of (jobs (runPipeline e st i v lf lt vm q)) i) = Some (outputs j) \<and>
         length (history (runPipeline e st i v lf lt vm q)) = length (history st) + 3 \<and>
         disk (runPipeline e st i v lf lt vm q) = disk st"
proof (cases "extractAudio_proc e")
  case (Close code)
  then have "code \<noteq> Some 0"
    using assms(1) by simp
  then show ?thesis
    using Close assms(2)
    by (cases j)
      (simp add: runPipeline_def extractAudio_def pipeline_catch_def Let_def jobs_update
        history_update disk_update assign_def no_updates_def)
next
  case SpawnError
  then show ?thesis
    using assms(2)
    by (cases j)
      (simp add: runPipeline_def extractAudio_def pipeline_catch_def Let_def jobs_update
        history_update disk_update assign_def no_updates_def)
qed


theorem runPipeline_extract_failure_witness:
  "extractAudio_proc (env0\<lparr>extractAudio_proc := Close (Some 1)\<rparr>) \<noteq> Close (Some 0) \<and>
   map_option (\<lambda>j. (status j, stage j, progress j, message j, outputs j))
     (map_of (jobs (run0 (env0\<lparr>extractAudio_proc := Close (Some 1)\<rparr>) disk0)) ''j1'') =
     Some (Error, Some ''pill-extract'', 8, ''ffmpeg audio extraction failed (code 1)'', []) \<and>
   length (history (run0 (env0\<lparr>extractAudio_proc := Close (Some 1)\<rparr>) disk0)) = 3"
proof -
  let ?e = "env0\<lparr>extractAudio_proc := Close (Some 1)\<rparr>"
  have a: "extractAudio_proc ?e \<noteq> Close (Some 0)"
    by simp
  have b: "map_of (jobs (state0 disk0)) ''j1'' =
      Some \<lparr>job_id = ''j1'', status = Queued, stage = None, progress = 0, message = [],
            meta = meta0, createdAt = 999, updatedAt = 999, outputs = []\<rparr>"
    by (simp add: state0_def createJob_def Let_def)
  have c: "String_of 1 = ''1''"
    by code_simp
  have d: "history (state0 disk0) = []"
    by (simp add: state0_def)
  show ?thesis
    using a runPipeline_extract_failure [OF a b, of "''/srv/uploads/1-a.mp4''" "''en''" "''es''"
        "''clone''" "''balanced''"]
    by (simp add: run0_def c d)
qed

text \<open>
  C1 fails on the code. In the reference run without the Wav2Lip model file,
  \<^verbatim>\<open>runLipSync\<close> writes progress 88 and then calls \<^verbatim>\<open>mergeAudioOnly\<close>, whose first write
  is progress 86: the progress values written to the job go down.
\<close>

theorem progress_regresses_without_model:
  "map progress (job_trace (run0 env0 (disk0\<lparr>files := []\<rparr>)) ''j1'') =
     [0, 8, 15, 18, 28, 48, 58, 65, 75, 82, 88, 86, 90, 94, 100, 100] \<and>
   \<not> sorted (map progress (job_trace (run0 env0 (disk0\<lparr>files := []\<rparr>)) ''j1''))"
proof -
  have "map progress (job_trace (run0 env0 (disk0\<lparr>files := []\<rparr>)) ''j1'') =
     [0, 8, 15, 18, 28, 48, 58, 65, 75, 82, 88, 86, 90, 94, 100, 100]"
    by code_simp
  then show ?thesis
    by simp
qed

text \<open>
  C2 fails on the code. In the reference run in which the subtitle file cannot be
  written, \<^verbatim>\<open>finalRender\<close> has already marked the job \<open>Done\<close> at progress 100 when
  \<^verbatim>\<open>generateSrt\<close> throws; the \<^verbatim>\<open>catch\<close> block then sets status \<open>Error\<close> and leaves
  progress at 100.
\<close>

theorem error_at_progress_100:
  "map (\<lambda>j. (status j, progress j))
     (job_trace (run0 env0 (disk0\<lparr>denied := [''/srv/outputs/j1_subtitles.srt'']\<rparr>)) ''j1'') =
     [(Running, 0), (Running, 8), (Running, 15), (Running, 18), (Running, 28), (Running, 48),
      (Running, 58), (Running, 65), (Running, 75), (Running, 82), (Running, 90), (Running, 94),
      (Done, 100), (Error, 100)] \<and>
   map_option (\<lambda>j. (status j, progress j))
     (map_of (jobs (run0 env0 (disk0\<lparr>denied := [''/srv/outputs/j1_subtitles.srt'']\<rparr>))) ''j1'') =
     Some (Error, 100)"
  by code_simp

text \<open>
  C3 fails on the code. In the same run the status written by \<^verbatim>\<open>finalRender\<close> is
  \<open>Done\<close> (stage \<^verbatim>\<open>complete\<close>), and the next write, by the \<^verbatim>\<open>catch\<close> block, changes it
  to \<open>Error\<close>.
\<close>

theorem status_done_then_error:
  "map (\<lambda>j. (status j, stage j))
     (drop 11 (job_trace (run0 env0 (disk0\<lparr>denied := [''/srv/outputs/j1_subtitles.srt'']\<rparr>)) ''j1'')) =
     [(Running, Some ''pill-render''), (Done, Some ''complete''), (Error, Some ''complete'')]"
  by code_simp

end
